theory Spec2Isabelle
  imports Complex_Main "HOL-Library.Char_ord" "HOL-Library.List_Lexorder"
begin

section \<open>Values crossing the JavaScript / SQL boundary\<close>

text \<open>
  The data layer (\<^verbatim>\<open>src/data/orders.js\<close> and the employee module) builds SQL
  statements and hands them to a database handle with three entry points:
  \<^verbatim>\<open>db.run\<close> (statements), \<^verbatim>\<open>db.get\<close> (first row or \<^verbatim>\<open>undefined\<close>) and
  \<^verbatim>\<open>db.all\<close> (all rows). The handle and the \<^verbatim>\<open>sql\<close> template tag are imported from
  modules outside the two source files; the tag interpolates \<^verbatim>\<open>${...}\<close> fragments as
  literal text, and \<^verbatim>\<open>$1, $2, ...\<close> are bound parameters.

  Numbers are exact rationals here: the rounding of SQL's floating-point \<^verbatim>\<open>REAL\<close> is
  not modelled.
\<close>

text \<open>
  A JavaScript value as far as \<^verbatim>\<open>getAllOrders\<close> inspects its \<^verbatim>\<open>customerId\<close> argument:
  the \<^verbatim>\<open>if (customerId)\<close> test and the template interpolation \<^verbatim>\<open>${customerId}\<close>.
\<close>

datatype jsval = Undefined | JNull | JNum int | JStr string

fun truthy :: "jsval \<Rightarrow> bool" where
  "truthy Undefined = False"
| "truthy JNull = False"
| "truthy (JNum n) = (n \<noteq> 0)"
| "truthy (JStr s) = (s \<noteq> [])"

text \<open>The decimal digits of a number, as a template literal renders it.\<close>

definition digit :: "nat \<Rightarrow> char" where
  "digit n = ''0123456789'' ! n"

function decimal :: "nat \<Rightarrow> string" where
  "decimal n = (if n < 10 then [] else decimal (n div 10)) @ [digit (n mod 10)]"
  by pat_completeness auto
termination
  by (relation "measure id") auto

declare decimal.simps [simp del]

definition number_text :: "int \<Rightarrow> string" where
  "number_text i = (if 0 \<le> i then decimal (nat i) else CHR ''-'' # decimal (nat (- i)))"

fun to_string :: "jsval \<Rightarrow> string" where
  "to_string Undefined = ''undefined''"
| "to_string JNull = ''null''"
| "to_string (JNum n) = number_text n"
| "to_string (JStr s) = s"

text \<open>A value stored in a column, as \<^verbatim>\<open>ORDER BY\<close> compares it.\<close>

datatype sqlval = Null | Num rat | Text string

text \<open>
  The ascending order of \<^verbatim>\<open>ORDER BY\<close>: \<^verbatim>\<open>NULL\<close> first, then numbers, then text
  compared byte by byte.
\<close>

fun sqlval_le :: "sqlval \<Rightarrow> sqlval \<Rightarrow> bool" where
  "sqlval_le Null _ = True"
| "sqlval_le (Num a) Null = False"
| "sqlval_le (Num a) (Num b) = (a \<le> b)"
| "sqlval_le (Num a) (Text t) = True"
| "sqlval_le (Text s) (Text t) = (s \<le> t)"
| "sqlval_le (Text s) _ = False"

section \<open>The schema\<close>

text \<open>
  Rows carry the columns the statements of the source name. A column is nullable where
  the source leaves it unset (\<^verbatim>\<open>shippeddate\<close> is not among the inserted columns) or
  the data model says so (\<^verbatim>\<open>reportsto\<close>); all others follow the JSDoc types
  (\<^verbatim>\<open>Pick<Order, ...>\<close>, \<^verbatim>\<open>Pick<OrderDetail, ...>\<close>). A table is the list of its rows
  in insertion order. Customer ids are text, the other ids are numbers.
\<close>

text \<open>The \<^verbatim>\<open>order\<close> / \<^verbatim>\<open>data\<close> argument of \<^verbatim>\<open>createOrder\<close> and \<^verbatim>\<open>updateOrder\<close>.\<close>

record order_data =
  employeeid :: nat
  customerid :: string
  shipcity :: string
  shipaddress :: string
  shipvia :: nat
  shipregion :: string
  shipname :: string
  shipcountry :: string
  shippostalcode :: string
  requireddate :: string
  freight :: rat

text \<open>A row of \<^verbatim>\<open>CustomerOrder\<close>.\<close>

record order_row = order_data +
  o_id :: nat
  shippeddate :: "string option"

text \<open>An entry of the \<^verbatim>\<open>details\<close> argument of \<^verbatim>\<open>createOrder\<close>.\<close>

record detail_data =
  productid :: nat
  unitprice :: rat
  quantity :: rat
  discount :: rat

text \<open>A row of \<^verbatim>\<open>OrderDetail\<close>; also an entry of the \<^verbatim>\<open>details\<close> of \<^verbatim>\<open>updateOrder\<close>.\<close>

record detail_row = detail_data +
  d_id :: string
  d_orderid :: nat

record customer_row =
  c_id :: string
  contactname :: string

record employee_row =
  e_id :: nat
  firstname :: string
  lastname :: string
  region :: string
  hiredate :: string
  title :: string
  reportsto :: "nat option"

record product_row =
  p_id :: nat
  productname :: string

record tables =
  customerOrder :: "order_row list"
  orderDetail :: "detail_row list"
  customer :: "customer_row list"
  employee :: "employee_row list"
  product :: "product_row list"

section \<open>Statements and the database handle\<close>

text \<open>The statements handed to \<^verbatim>\<open>db.run\<close>, with their bound parameters.\<close>

datatype stmt =
    Begin
  | Commit
  | Rollback
  | InsertOrder order_data
  | InsertDetail string nat detail_data
  | DeleteOrder nat
  | UpdateOrder nat order_data
  | UpdateDetail string detail_data

text \<open>
  \<^verbatim>\<open>InsertionError\<close> is the \<^verbatim>\<open>new Error('Order insertion did not return an id')\<close> of
  \<^verbatim>\<open>createOrder\<close>; \<^verbatim>\<open>DriverError\<close> is any rejection of the handle.
\<close>

datatype error = InsertionError | DriverError string

text \<open>
  What \<^verbatim>\<open>db.run\<close> resolves to: possibly nothing (\<^verbatim>\<open>!result\<close>), otherwise an object
  whose \<^verbatim>\<open>lastID\<close> may be missing.
\<close>

record run_result =
  lastID :: "nat option"

type_synonym outcome = "error + run_result option"

text \<open>
  The handle is a parameter: any deterministic function from a statement and the state
  of the database to an outcome and the next state. Statements take effect in the order
  in which they are dispatched, and their promises settle in that order.
\<close>

type_synonym 's driver = "stmt \<Rightarrow> 's \<Rightarrow> outcome \<times> 's"

text \<open>A connection: the statements dispatched so far, and the state behind the handle.\<close>

record 's conn =
  issued :: "stmt list"
  dbstate :: 's

definition db_run :: "'s driver \<Rightarrow> stmt \<Rightarrow> 's conn \<Rightarrow> outcome \<times> 's conn" where
  "db_run run q c =
     (case run q (dbstate c) of
        (r, s') \<Rightarrow> (r, \<lparr>issued = issued c @ [q], dbstate = s'\<rparr>))"

text \<open>
  \<^verbatim>\<open>Promise.all\<close>: rejects with the first rejection, otherwise resolves to all values.
\<close>

fun promise_all :: "(error + 'a) list \<Rightarrow> error + 'a list" where
  "promise_all [] = Inr []"
| "promise_all (Inl e # rs) = Inl e"
| "promise_all (Inr v # rs) =
     (case promise_all rs of Inl e \<Rightarrow> Inl e | Inr vs \<Rightarrow> Inr (v # vs))"

section \<open>createOrder\<close>

text \<open>\<^verbatim>\<open>result && result.lastID\<close> being truthy, and the id it then yields.\<close>

fun generated_id :: "run_result option \<Rightarrow> nat option" where
  "generated_id None = None"
| "generated_id (Some r) =
     (case lastID r of None \<Rightarrow> None | Some n \<Rightarrow> if n = 0 then None else Some n)"

text \<open>The template literal \<^verbatim>\<open>`${orderid}/${orderDetailsCount++}`\<close>.\<close>

definition detail_id :: "nat \<Rightarrow> nat \<Rightarrow> string" where
  "detail_id orderid n = decimal orderid @ ''/'' @ decimal n"

text \<open>
  \<^verbatim>\<open>details.map(detail => db.run(INSERT INTO OrderDetail ...))\<close> with the counter
  \<^verbatim>\<open>orderDetailsCount\<close>: every insert is dispatched, whatever the earlier ones return.
\<close>

fun insert_details ::
  "'s driver \<Rightarrow> nat \<Rightarrow> nat \<Rightarrow> detail_data list \<Rightarrow> 's conn \<Rightarrow> outcome list \<times> 's conn" where
  "insert_details run orderid n [] c = ([], c)"
| "insert_details run orderid n (d # ds) c =
     (case db_run run (InsertDetail (detail_id orderid n) orderid d) c of
        (r, c') \<Rightarrow>
          (case insert_details run orderid (Suc n) ds c' of
             (rs, c'') \<Rightarrow> (r # rs, c'')))"

text \<open>The body of the \<^verbatim>\<open>try\<close> block of \<^verbatim>\<open>createOrder\<close>.\<close>

definition createOrder_try ::
  "'s driver \<Rightarrow> order_data \<Rightarrow> detail_data list \<Rightarrow> 's conn \<Rightarrow> (error + nat) \<times> 's conn" where
  "createOrder_try run order details c1 =
     (case db_run run (InsertOrder order) c1 of
        (Inl e, c2) \<Rightarrow> (Inl e, c2)
      | (Inr result, c2) \<Rightarrow>
          (case generated_id result of
             None \<Rightarrow> (Inl InsertionError, c2)
           | Some orderid \<Rightarrow>
               (case insert_details run orderid 1 details c2 of
                  (promises, c3) \<Rightarrow>
                    (case promise_all promises of
                       Inl e \<Rightarrow> (Inl e, c3)
                     | Inr _ \<Rightarrow>
                         (case db_run run Commit c3 of
                            (Inl e, c4) \<Rightarrow> (Inl e, c4)
                          | (Inr _, c4) \<Rightarrow> (Inr orderid, c4))))))"

text \<open>
  \<^verbatim>\<open>createOrder\<close>: \<^verbatim>\<open>BEGIN\<close> outside the \<^verbatim>\<open>try\<close>, then the block, and in the
  \<^verbatim>\<open>catch\<close> an awaited \<^verbatim>\<open>ROLLBACK\<close> followed by \<^verbatim>\<open>throw e\<close>.
\<close>

definition createOrder ::
  "'s driver \<Rightarrow> order_data \<Rightarrow> detail_data list \<Rightarrow> 's conn \<Rightarrow> (error + nat) \<times> 's conn" where
  "createOrder run order details c0 =
     (case db_run run Begin c0 of
        (Inl e, c1) \<Rightarrow> (Inl e, c1)
      | (Inr _, c1) \<Rightarrow>
          (case createOrder_try run order details c1 of
             (Inr created, c2) \<Rightarrow> (Inr created, c2)
           | (Inl e, c2) \<Rightarrow>
               (case db_run run Rollback c2 of
                  (Inl e', c3) \<Rightarrow> (Inl e', c3)
                | (Inr _, c3) \<Rightarrow> (Inl e, c3))))"

section \<open>deleteOrder and updateOrder\<close>

definition deleteOrder :: "'s driver \<Rightarrow> nat \<Rightarrow> 's conn \<Rightarrow> outcome \<times> 's conn" where
  "deleteOrder run i c = db_run run (DeleteOrder i) c"

text \<open>\<^verbatim>\<open>details.map(detail => db.run(UPDATE OrderDetail ... WHERE id = $5))\<close>.\<close>

fun update_details ::
  "'s driver \<Rightarrow> detail_row list \<Rightarrow> 's conn \<Rightarrow> outcome list \<times> 's conn" where
  "update_details run [] c = ([], c)"
| "update_details run (d # ds) c =
     (case db_run run (UpdateDetail (d_id d) (detail_data.truncate d)) c of
        (r, c') \<Rightarrow>
          (case update_details run ds c' of
             (rs, c'') \<Rightarrow> (r # rs, c'')))"

text \<open>The body of the \<^verbatim>\<open>try\<close> block of \<^verbatim>\<open>updateOrder\<close>; it returns \<^verbatim>\<open>{ id, ...data }\<close>.\<close>

definition updateOrder_try ::
  "'s driver \<Rightarrow> nat \<Rightarrow> order_data \<Rightarrow> detail_row list \<Rightarrow> 's conn
     \<Rightarrow> (error + nat \<times> order_data) \<times> 's conn" where
  "updateOrder_try run i data details c1 =
     (case db_run run (UpdateOrder i data) c1 of
        (Inl e, c2) \<Rightarrow> (Inl e, c2)
      | (Inr _, c2) \<Rightarrow>
          (case update_details run details c2 of
             (promises, c3) \<Rightarrow>
               (case promise_all promises of
                  Inl e \<Rightarrow> (Inl e, c3)
                | Inr _ \<Rightarrow>
                    (case db_run run Commit c3 of
                       (Inl e, c4) \<Rightarrow> (Inl e, c4)
                     | (Inr _, c4) \<Rightarrow> (Inr (i, data), c4)))))"


section \<open>Evaluating the SELECT statements\<close>

text \<open>
  The queries are evaluated clause by clause in the order SQL prescribes: \<^verbatim>\<open>FROM\<close> and
  the joins (a nested loop over the left table, in table order), \<^verbatim>\<open>WHERE\<close>,
  \<^verbatim>\<open>GROUP BY\<close>, the select list, \<^verbatim>\<open>ORDER BY\<close>, \<^verbatim>\<open>LIMIT\<close> and \<^verbatim>\<open>OFFSET\<close>. SQL leaves
  the order of rows open where no \<^verbatim>\<open>ORDER BY\<close> fixes it; the evaluation here scans tables
  in insertion order and sorts stably.
\<close>

definition left_join :: "('a \<Rightarrow> 'b \<Rightarrow> bool) \<Rightarrow> 'a list \<Rightarrow> 'b list \<Rightarrow> ('a \<times> 'b option) list" where
  "left_join on xs ys =
     concat (map (\<lambda>x. let ms = filter (on x) ys
                      in if ms = [] then [(x, None)] else map (\<lambda>y. (x, Some y)) ms) xs)"

definition inner_join :: "('a \<Rightarrow> 'b \<Rightarrow> bool) \<Rightarrow> 'a list \<Rightarrow> 'b list \<Rightarrow> ('a \<times> 'b) list" where
  "inner_join on xs ys = concat (map (\<lambda>x. map (Pair x) (filter (on x) ys)) xs)"

text \<open>\<^verbatim>\<open>GROUP BY\<close>: one group per key, in order of first appearance.\<close>

function group_by :: "('a \<Rightarrow> 'k) \<Rightarrow> 'a list \<Rightarrow> 'a list list" where
  "group_by key [] = []"
| "group_by key (x # xs) =
     (x # filter (\<lambda>y. key y = key x) xs) # group_by key (filter (\<lambda>y. key y \<noteq> key x) xs)"
  by pat_completeness auto
termination
  by (relation "measure (\<lambda>(key, xs). length xs)") (auto simp: less_Suc_eq_le)

text \<open>\<^verbatim>\<open>db.get\<close>, and a scalar subquery: the first row, if there is one.\<close>

fun db_get :: "'a list \<Rightarrow> 'a option" where
  "db_get [] = None"
| "db_get (r # _) = Some r"

text \<open>A stable insertion sort under a comparison, for \<^verbatim>\<open>ORDER BY\<close>.\<close>

fun insert_by :: "('a \<Rightarrow> 'a \<Rightarrow> bool) \<Rightarrow> 'a \<Rightarrow> 'a list \<Rightarrow> 'a list" where
  "insert_by le x [] = [x]"
| "insert_by le x (y # ys) = (if le x y then x # y # ys else y # insert_by le x ys)"

definition sort_by :: "('a \<Rightarrow> 'a \<Rightarrow> bool) \<Rightarrow> 'a list \<Rightarrow> 'a list" where
  "sort_by le xs = foldr (insert_by le) xs []"

text \<open>
  \<^verbatim>\<open>LIMIT n OFFSET m\<close>: a negative limit is no limit, a negative offset is no offset.
\<close>

definition limit_offset :: "int \<Rightarrow> int \<Rightarrow> 'a list \<Rightarrow> 'a list" where
  "limit_offset n m rows =
     (let rest = drop (nat m) rows in if n < 0 then rest else take (nat n) rest)"

section \<open>getAllOrders and getCustomerOrders\<close>

record order_collection_options =
  orderdir :: string
  page :: int
  perPage :: int
  sortcol :: string

text \<open>
  \<^verbatim>\<open>OrderCollectionOptions\<close> above; its fields \<^verbatim>\<open>sort\<close> and \<^verbatim>\<open>order\<close> are
  \<open>sortcol\<close> and \<open>orderdir\<close> here, to keep them apart from the list library's \<open>sort\<close>
  and from the \<^verbatim>\<open>order\<close> argument of \<^verbatim>\<open>createOrder\<close>.
\<close>

text \<open>\<^verbatim>\<open>Partial<OrderCollectionOptions>\<close>: \<open>None\<close> is a key that is not present.\<close>

record partial_options =
  opt_order :: "string option"
  opt_page :: "int option"
  opt_perPage :: "int option"
  opt_sort :: "string option"

definition DEFAULT_ORDER_COLLECTION_OPTIONS :: order_collection_options where
  "DEFAULT_ORDER_COLLECTION_OPTIONS = \<lparr>orderdir = ''asc'', page = 1, perPage = 20, sortcol = ''id''\<rparr>"

definition DEFAULT_CUSTOMER_ORDER_COLLECTION_OPTIONS :: order_collection_options where
  "DEFAULT_CUSTOMER_ORDER_COLLECTION_OPTIONS =
     \<lparr>orderdir = ''asc'', page = 1, perPage = 20, sortcol = ''shippeddate''\<rparr>"

text \<open>The object spread \<^verbatim>\<open>{ ...defaults, ...opts }\<close>.\<close>

definition spread :: "order_collection_options \<Rightarrow> partial_options \<Rightarrow> order_collection_options" where
  "spread defaults opts =
     \<lparr>orderdir = (case opt_order opts of None \<Rightarrow> orderdir defaults | Some v \<Rightarrow> v),
      page = (case opt_page opts of None \<Rightarrow> page defaults | Some v \<Rightarrow> v),
      perPage = (case opt_perPage opts of None \<Rightarrow> perPage defaults | Some v \<Rightarrow> v),
      sortcol = (case opt_sort opts of None \<Rightarrow> sortcol defaults | Some v \<Rightarrow> v)\<rparr>"

text \<open>A complete options object passed where a partial one is expected.\<close>

definition as_partial :: "order_collection_options \<Rightarrow> partial_options" where
  "as_partial options =
     \<lparr>opt_order = Some (orderdir options), opt_page = Some (page options),
      opt_perPage = Some (perPage options), opt_sort = Some (sortcol options)\<rparr>"

text \<open>A row of the listing: the columns \<^verbatim>\<open>ALL_ORDERS_COLUMNS\<close> and the two joined names.\<close>

record order_listing =
  l_id :: nat
  l_customerid :: string
  l_employeeid :: nat
  l_shipcity :: string
  l_shipcountry :: string
  l_shippeddate :: "string option"
  l_customername :: "string option"
  l_employeename :: "string option"

definition quote :: char where
  "quote = CHR 0x27"

text \<open>The text \<^verbatim>\<open>`WHERE o.customerId = '${customerId}'`\<close>, or the empty string.\<close>

definition where_clause :: "jsval \<Rightarrow> string" where
  "where_clause customerId =
     (if truthy customerId
      then ''WHERE o.customerId = '' @ [quote] @ to_string customerId @ [quote]
      else [])"

text \<open>
  How the engine reads that text back: no clause, or an equality of \<^verbatim>\<open>o.customerid\<close>
  with a string literal. A literal with a quote character inside changes the structure of
  the statement; such statements are outside this evaluation and are rejected.
\<close>

definition where_filter :: "string \<Rightarrow> error + (order_row \<Rightarrow> bool)" where
  "where_filter w =
     (let prefix = ''WHERE o.customerId = '' @ [quote];
          literal = butlast (drop (length prefix) w)
      in if w = [] then Inr (\<lambda>ord. True)
         else if length prefix < length w \<and> take (length prefix) w = prefix
                 \<and> last w = quote \<and> quote \<notin> set literal
         then Inr (\<lambda>ord. customerid ord = literal)
         else Inl (DriverError ''syntax error''))"

text \<open>The column \<^verbatim>\<open>o.${sort}\<close> of \<^verbatim>\<open>CustomerOrder\<close>, if there is one of that name.\<close>

definition order_column :: "string \<Rightarrow> (order_row \<Rightarrow> sqlval) option" where
  "order_column name = map_of
     [(''id'', \<lambda>ord. Num (of_nat (o_id ord))),
      (''customerid'', \<lambda>ord. Text (customerid ord)),
      (''employeeid'', \<lambda>ord. Num (of_nat (employeeid ord))),
      (''shipcity'', \<lambda>ord. Text (shipcity ord)),
      (''shipaddress'', \<lambda>ord. Text (shipaddress ord)),
      (''shipvia'', \<lambda>ord. Num (of_nat (shipvia ord))),
      (''shipregion'', \<lambda>ord. Text (shipregion ord)),
      (''shipname'', \<lambda>ord. Text (shipname ord)),
      (''shipcountry'', \<lambda>ord. Text (shipcountry ord)),
      (''shippostalcode'', \<lambda>ord. Text (shippostalcode ord)),
      (''requireddate'', \<lambda>ord. Text (requireddate ord)),
      (''freight'', \<lambda>ord. Num (freight ord)),
      (''shippeddate'', \<lambda>ord. case shippeddate ord of None \<Rightarrow> Null | Some d \<Rightarrow> Text d)] name"

text \<open>The comparison of \<^verbatim>\<open>ORDER BY o.${sort} ${order}\<close>.\<close>

definition order_by :: "string \<Rightarrow> string \<Rightarrow> error + (order_row \<Rightarrow> order_row \<Rightarrow> bool)" where
  "order_by sort_column direction =
     (case order_column sort_column of
        None \<Rightarrow> Inl (DriverError ''no such column'')
      | Some col \<Rightarrow>
          if direction \<in> set [''asc'', ''ASC'', '''']
          then Inr (\<lambda>a b. sqlval_le (col a) (col b))
          else if direction \<in> set [''desc'', ''DESC'']
          then Inr (\<lambda>a b. sqlval_le (col b) (col a))
          else Inl (DriverError ''syntax error''))"

text \<open>
  \<^verbatim>\<open>FROM CustomerOrder AS o LEFT JOIN Customer AS c ON o.customerid = c.id
  LEFT JOIN Employee AS e ON o.employeeid = e.id\<close>, shared by the listing and \<^verbatim>\<open>getOrder\<close>.
\<close>

definition order_joins ::
  "tables \<Rightarrow> ((order_row \<times> customer_row option) \<times> employee_row option) list" where
  "order_joins db =
     left_join (\<lambda>(ord, c) e. employeeid ord = e_id e)
       (left_join (\<lambda>ord c. customerid ord = c_id c) (customerOrder db) (customer db))
       (employee db)"

text \<open>\<^verbatim>\<open>e.firstname || ' ' || e.lastname\<close>, \<^verbatim>\<open>NULL\<close> without a joined employee.\<close>

definition employeename_of :: "employee_row option \<Rightarrow> string option" where
  "employeename_of e = map_option (\<lambda>e. firstname e @ '' '' @ lastname e) e"

definition listing_row ::
  "(order_row \<times> customer_row option) \<times> employee_row option \<Rightarrow> order_listing" where
  "listing_row = (\<lambda>((ord, c), e).
     \<lparr>l_id = o_id ord, l_customerid = customerid ord, l_employeeid = employeeid ord,
      l_shipcity = shipcity ord, l_shipcountry = shipcountry ord, l_shippeddate = shippeddate ord,
      l_customername = map_option contactname c, l_employeename = employeename_of e\<rparr>)"

text \<open>The listing statement up to and including its \<^verbatim>\<open>ORDER BY\<close>.\<close>

definition ordered_orders ::
  "string \<Rightarrow> string \<Rightarrow> string \<Rightarrow> tables \<Rightarrow> error + order_listing list" where
  "ordered_orders whereClause sort_column direction db =
     (case where_filter whereClause of
        Inl e \<Rightarrow> Inl e
      | Inr keep \<Rightarrow>
          (case order_by sort_column direction of
             Inl e \<Rightarrow> Inl e
           | Inr le \<Rightarrow>
               Inr (map listing_row
                 (sort_by (\<lambda>a b. le (fst (fst a)) (fst (fst b)))
                   (filter (\<lambda>r. keep (fst (fst r))) (order_joins db))))))"

text \<open>The whole statement of \<^verbatim>\<open>getAllOrders\<close>, with its five interpolated fragments.\<close>

definition select_orders ::
  "string \<Rightarrow> string \<Rightarrow> string \<Rightarrow> int \<Rightarrow> int \<Rightarrow> tables \<Rightarrow> error + order_listing list" where
  "select_orders whereClause sort_column direction limit offset db =
     (case ordered_orders whereClause sort_column direction db of
        Inl e \<Rightarrow> Inl e
      | Inr rows \<Rightarrow> Inr (limit_offset limit offset rows))"

text \<open>
  \<^verbatim>\<open>getAllOrders\<close>. Pages count from 1: the default page is 1 and the offset is
  \<^verbatim>\<open>(page - 1) * perPage\<close> (the JSDoc of \<^verbatim>\<open>page\<close> calls it zero-indexed).
\<close>

definition getAllOrders :: "partial_options \<Rightarrow> jsval \<Rightarrow> tables \<Rightarrow> error + order_listing list" where
  "getAllOrders opts customerId db =
     (let options = spread DEFAULT_ORDER_COLLECTION_OPTIONS opts;
          whereClause = where_clause customerId
      in select_orders whereClause (sortcol options) (orderdir options)
           (perPage options) ((page options - 1) * perPage options) db)"

definition getCustomerOrders :: "jsval \<Rightarrow> partial_options \<Rightarrow> tables \<Rightarrow> error + order_listing list" where
  "getCustomerOrders customerId opts db =
     (let options = spread DEFAULT_CUSTOMER_ORDER_COLLECTION_OPTIONS opts
      in getAllOrders (as_partial options) customerId db)"

section \<open>getOrder, getOrderDetails, getOrderWithDetails\<close>

record order_view =
  v_id :: nat
  v_customerid :: "string option"
  v_employeeid :: "nat option"
  v_customername :: "string option"
  v_employeename :: "string option"
  subtotal :: "rat option"

text \<open>
  The scalar subquery \<^verbatim>\<open>SELECT sum(unitprice * quantity * (1 - discount)) FROM OrderDetail
  WHERE orderid = ${id} GROUP BY orderid\<close>. The id is a number, so that the interpolated
  \<^verbatim>\<open>${id}\<close> and the bound \<^verbatim>\<open>$1\<close> denote the same value.
\<close>

definition subtotal_of :: "nat \<Rightarrow> tables \<Rightarrow> rat option" where
  "subtotal_of i db =
     db_get (map (\<lambda>g. sum_list (map (\<lambda>d. unitprice d * quantity d * (1 - discount d)) g))
       (group_by d_orderid (filter (\<lambda>d. d_orderid d = i) (orderDetail db))))"

definition getOrder :: "nat \<Rightarrow> tables \<Rightarrow> order_view option" where
  "getOrder i db =
     db_get (map (\<lambda>((ord, c), e).
         \<lparr>v_id = o_id ord, v_customerid = map_option c_id c, v_employeeid = map_option e_id e,
          v_customername = map_option contactname c, v_employeename = employeename_of e,
          subtotal = subtotal_of i db\<rparr>)
       (filter (\<lambda>((ord, c), e). o_id ord = i) (order_joins db)))"

record detail_view =
  dv_id :: string
  price :: rat
  dv_productname :: "string option"
  dv_unitprice :: rat
  dv_quantity :: rat
  dv_discount :: rat

definition getOrderDetails :: "nat \<Rightarrow> tables \<Rightarrow> detail_view list" where
  "getOrderDetails i db =
     map (\<lambda>(d, p).
         \<lparr>dv_id = d_id d, price = unitprice d * quantity d,
          dv_productname = map_option productname p,
          dv_unitprice = unitprice d, dv_quantity = quantity d, dv_discount = discount d\<rparr>)
       (filter (\<lambda>(d, p). d_orderid d = i)
         (left_join (\<lambda>d p. productid d = p_id p) (orderDetail db) (product db)))"

definition getOrderWithDetails :: "nat \<Rightarrow> tables \<Rightarrow> order_view option \<times> detail_view list" where
  "getOrderWithDetails i db = (getOrder i db, getOrderDetails i db)"

section \<open>getAllEmployees and getEmployee\<close>

text \<open>A row of the employee listing: the columns \<^verbatim>\<open>ALL_EMPLOYEES_COLUMNS\<close> and the count.\<close>

record employee_listing = employee_row +
  ordercount :: nat

text \<open>
  \<^verbatim>\<open>FROM Employee AS e INNER JOIN CustomerOrder AS o ON e.id = o.employeeid
  GROUP BY o.employeeid\<close>. The columns of \<^verbatim>\<open>e\<close> are bare columns of an aggregate
  query and come from one row of the group, here the first; \<^verbatim>\<open>count(o.employeeid)\<close> counts
  the rows of the group, whose \<^verbatim>\<open>o.employeeid\<close> is never \<^verbatim>\<open>NULL\<close>.
\<close>

definition getAllEmployees :: "tables \<Rightarrow> employee_listing list" where
  "getAllEmployees db =
     concat (map (\<lambda>g. case g of
                        [] \<Rightarrow> []
                      | (e, ord) # _ \<Rightarrow> [employee_row.extend e (employee_listing.fields (length g))])
       (group_by (\<lambda>(e, ord). employeeid ord)
         (inner_join (\<lambda>e ord. e_id e = employeeid ord) (employee db) (customerOrder db))))"

definition getEmployee :: "nat \<Rightarrow> tables \<Rightarrow> employee_row option" where
  "getEmployee i db = db_get (filter (\<lambda>e. e_id e = i) (employee db))"

section \<open>An engine for the statements\<close>

text \<open>
  A database behind the handle: the tables, and the tables as they were at \<^verbatim>\<open>BEGIN\<close>
  while a transaction is open. The engine executes each statement as it is written; it
  enforces no constraint of the schema, which is not part of the source.
\<close>

record database =
  current :: tables
  snapshot :: "tables option"

definition next_order_id :: "order_row list \<Rightarrow> nat" where
  "next_order_id rows = Suc (fold max (map o_id rows) 0)"

definition resolved :: "database \<Rightarrow> outcome \<times> database" where
  "resolved db = (Inr (Some \<lparr>lastID = None\<rparr>), db)"

fun engine :: "database driver" where
  "engine Begin db =
     (case snapshot db of
        Some _ \<Rightarrow> (Inl (DriverError ''cannot start a transaction within a transaction''), db)
      | None \<Rightarrow> resolved (db\<lparr>snapshot := Some (current db)\<rparr>))"
| "engine Commit db =
     (case snapshot db of
        None \<Rightarrow> (Inl (DriverError ''cannot commit - no transaction is active''), db)
      | Some _ \<Rightarrow> resolved (db\<lparr>snapshot := None\<rparr>))"
| "engine Rollback db =
     (case snapshot db of
        None \<Rightarrow> (Inl (DriverError ''cannot rollback - no transaction is active''), db)
      | Some saved \<Rightarrow> resolved \<lparr>current = saved, snapshot = None\<rparr>)"
| "engine (InsertOrder data) db =
     (let t = current db; i = next_order_id (customerOrder t);
          row = order_data.extend data (order_row.fields i None)
      in (Inr (Some \<lparr>lastID = Some i\<rparr>),
          db\<lparr>current := t\<lparr>customerOrder := customerOrder t @ [row]\<rparr>\<rparr>))"
| "engine (InsertDetail i orderid d) db =
     (let t = current db;
          row = detail_data.extend d (detail_row.fields i orderid)
      in (Inr (Some \<lparr>lastID = Some (Suc (length (orderDetail t)))\<rparr>),
          db\<lparr>current := t\<lparr>orderDetail := orderDetail t @ [row]\<rparr>\<rparr>))"
| "engine (DeleteOrder i) db =
     (let t = current db
      in resolved (db\<lparr>current := t\<lparr>customerOrder := filter (\<lambda>ord. o_id ord \<noteq> i) (customerOrder t)\<rparr>\<rparr>))"
| "engine (UpdateOrder i data) db =
     (let t = current db
      in resolved (db\<lparr>current := t\<lparr>customerOrder :=
           map (\<lambda>ord. if o_id ord = i
                     then order_data.extend data (order_row.fields (o_id ord) (shippeddate ord))
                     else ord) (customerOrder t)\<rparr>\<rparr>))"
| "engine (UpdateDetail i d) db =
     (let t = current db
      in resolved (db\<lparr>current := t\<lparr>orderDetail :=
           map (\<lambda>r. if d_id r = i
                     then detail_data.extend d (detail_row.fields (d_id r) (d_orderid r))
                     else r) (orderDetail t)\<rparr>\<rparr>))"

text \<open>A handle that rejects the statements chosen by \<open>bad\<close> and executes the others.\<close>

definition rejecting :: "(stmt \<Rightarrow> bool) \<Rightarrow> database driver" where
  "rejecting bad q db =
     (if bad q then (Inl (DriverError ''statement rejected''), db) else engine q db)"

section \<open>Test fixtures\<close>

text \<open>A handle that replays a script of outcomes, one per statement, whatever the statement.\<close>

fun scripted :: "outcome list driver" where
  "scripted q [] = (Inr None, [])"
| "scripted q (r # rs) = (r, rs)"

definition example_order :: order_data where
  "example_order = \<lparr>employeeid = 1, customerid = ''ALFKI'', shipcity = ''Graz'',
     shipaddress = ''Kirchgasse 6'', shipvia = 1, shipregion = ''Styria'',
     shipname = ''Ernst Handel'', shipcountry = ''Austria'', shippostalcode = ''8010'',
     requireddate = ''2020-01-01'', freight = 5\<rparr>"

text \<open>The ids of the \<^verbatim>\<open>OrderDetail\<close> inserts among a sequence of statements.\<close>

fun detail_ids_of :: "stmt list \<Rightarrow> string list" where
  "detail_ids_of [] = []"
| "detail_ids_of (InsertDetail i _ _ # qs) = i # detail_ids_of qs"
| "detail_ids_of (_ # qs) = detail_ids_of qs"




text \<open>A \<^verbatim>\<open>CustomerOrder\<close> row of the example: id, customer, employee and shipping date.\<close>

definition example_row :: "nat \<Rightarrow> string \<Rightarrow> nat \<Rightarrow> string option \<Rightarrow> order_row" where
  "example_row i cust emp shipped =
     order_data.extend (example_order\<lparr>customerid := cust, employeeid := emp\<rparr>)
       (order_row.fields i shipped)"

text \<open>
  Order 12 refers to a customer and an employee that do not exist; the second line item of
  order 10 refers to a product that does not exist; employee 3 has no order.
\<close>

definition example_tables :: tables where
  "example_tables =
     \<lparr>customerOrder =
        [example_row 10 ''ERNSH'' 2 (Some ''2020-01-05''),
         example_row 11 ''ALFKI'' 1 None,
         example_row 12 ''GHOST'' 9 (Some ''2020-01-02''),
         example_row 13 ''ALFKI'' 2 (Some ''2020-01-03'')],
      orderDetail =
        [\<lparr>productid = 7, unitprice = 10, quantity = 2, discount = 1 / 10,
          d_id = ''10/1'', d_orderid = 10\<rparr>,
         \<lparr>productid = 8, unitprice = 4, quantity = 1, discount = 0,
          d_id = ''11/1'', d_orderid = 11\<rparr>,
         \<lparr>productid = 99, unitprice = 5, quantity = 1, discount = 0,
          d_id = ''10/2'', d_orderid = 10\<rparr>],
      customer =
        [\<lparr>c_id = ''ALFKI'', contactname = ''Maria Anders''\<rparr>,
         \<lparr>c_id = ''ERNSH'', contactname = ''Roland Mendel''\<rparr>],
      employee =
        [\<lparr>e_id = 1, firstname = ''Nancy'', lastname = ''Davolio'', region = ''North America'',
          hiredate = ''2024-05-01'', title = ''Sales Representative'', reportsto = Some 2\<rparr>,
         \<lparr>e_id = 2, firstname = ''Andrew'', lastname = ''Fuller'', region = ''North America'',
          hiredate = ''2024-08-14'', title = ''Vice President, Sales'', reportsto = None\<rparr>,
         \<lparr>e_id = 3, firstname = ''Janet'', lastname = ''Leverling'', region = ''North America'',
          hiredate = ''2024-04-01'', title = ''Sales Representative'', reportsto = Some 2\<rparr>],
      product =
        [\<lparr>p_id = 7, productname = ''Organic Dried Pears''\<rparr>,
         \<lparr>p_id = 8, productname = ''Northwoods Cranberry Sauce''\<rparr>]\<rparr>"

definition no_options :: partial_options where
  "no_options = \<lparr>opt_order = None, opt_page = None, opt_perPage = None, opt_sort = None\<rparr>"

text \<open>The listing of the example, ordered by id.\<close>

definition example_listing_row ::
  "nat \<Rightarrow> string \<Rightarrow> nat \<Rightarrow> string option \<Rightarrow> string option \<Rightarrow> string option \<Rightarrow> order_listing" where
  "example_listing_row i cust emp shipped cname ename =
     \<lparr>l_id = i, l_customerid = cust, l_employeeid = emp, l_shipcity = ''Graz'',
      l_shipcountry = ''Austria'', l_shippeddate = shipped,
      l_customername = cname, l_employeename = ename\<rparr>"

definition example_listing :: "order_listing list" where
  "example_listing =
     [example_listing_row 10 ''ERNSH'' 2 (Some ''2020-01-05'') (Some ''Roland Mendel'') (Some ''Andrew Fuller''),
      example_listing_row 11 ''ALFKI'' 1 None (Some ''Maria Anders'') (Some ''Nancy Davolio''),
      example_listing_row 12 ''GHOST'' 9 (Some ''2020-01-02'') None None,
      example_listing_row 13 ''ALFKI'' 2 (Some ''2020-01-03'') (Some ''Maria Anders'') (Some ''Andrew Fuller'')]"

section \<open>Properties of the transactional operations\<close>

lemma issued_db_run: "db_run run q c = (r, c') \<Longrightarrow> issued c' = issued c @ [q]"
  by (auto simp: db_run_def split: prod.splits)


lemma insert_details_length:
  "insert_details run orderid n ds c = (rs, c') \<Longrightarrow> length rs = length ds"
  by (induction ds arbitrary: n c rs c') (auto split: prod.splits)




lemma detail_ids_of_append: "detail_ids_of (xs @ ys) = detail_ids_of xs @ detail_ids_of ys"
  by (induction xs rule: detail_ids_of.induct) simp_all


lemma createOrder_try_missing_id:
  assumes "db_run run (InsertOrder order) c1 = (Inr result, c2)"
      and "generated_id result = None"
  shows "createOrder_try run order details c1 = (Inl InsertionError, c2)"
  using assms by (simp add: createOrder_def createOrder_try_def)

lemma createOrder_catch:
  assumes "db_run run Begin c0 = (Inr r0, c1)"
      and "createOrder_try run order details c1 = (Inl e, c2)"
  shows "createOrder run order details c0 =
           (case db_run run Rollback c2 of
              (Inl e', c3) \<Rightarrow> (Inl e', c3) | (Inr _, c3) \<Rightarrow> (Inl e, c3))"
  using assms by (simp add: createOrder_def)

lemma catch_fst:
  "fst (case db_run run Rollback c2 of
          (Inl e', c3) \<Rightarrow> (Inl e', c3) | (Inr (_ :: run_result option), c3) \<Rightarrow> (Inl e, c3)) =
   (case fst (db_run run Rollback c2) of Inl e' \<Rightarrow> Inl e' | Inr _ \<Rightarrow> (Inl e :: error + 'b))"
  by (auto split: prod.splits sum.splits)

lemma catch_issued:
  "issued (snd (case db_run run Rollback c2 of
          (Inl e', c3) \<Rightarrow> (Inl e' :: error + 'b, c3) | (Inr (_ :: run_result option), c3) \<Rightarrow> (Inl e, c3))) =
   issued c2 @ [Rollback]"
  by (auto split: prod.splits sum.splits dest: issued_db_run)





lemma promise_all_first_rejection:
  "promise_all rs = Inl e \<longleftrightarrow> (\<exists>vs rest. rs = map Inr vs @ Inl e # rest)"
proof (induction rs rule: promise_all.induct)
  case 1
  then show ?case by simp
next
  case (2 e' rs)
  show ?case
  proof
    assume "promise_all (Inl e' # rs) = Inl e"
    then have "Inl e' # rs = map Inr [] @ Inl e # rs" by simp
    then show "\<exists>vs rest. Inl e' # rs = map Inr vs @ Inl e # rest" by blast
  next
    assume "\<exists>vs rest. Inl e' # rs = map Inr vs @ Inl e # rest"
    then obtain vs rest where eq: "Inl e' # rs = map Inr vs @ Inl e # rest" by blast
    then show "promise_all (Inl e' # rs) = Inl e" by (cases vs) auto
  qed
next
  case (3 v rs)
  show ?case
  proof
    assume "promise_all (Inr v # rs) = Inl e"
    then have "promise_all rs = Inl e" by (simp split: sum.splits)
    with 3 obtain vs rest where "rs = map Inr vs @ Inl e # rest" by blast
    then have "Inr v # rs = map Inr (v # vs) @ Inl e # rest" by simp
    then show "\<exists>vs rest. Inr v # rs = map Inr vs @ Inl e # rest" by blast
  next
    assume "\<exists>vs rest. Inr v # rs = map Inr vs @ Inl e # rest"
    then obtain vs rest where eq: "Inr v # rs = map Inr vs @ Inl e # rest" by blast
    then obtain vs' where "rs = map Inr vs' @ Inl e # rest" by (cases vs) auto
    with 3 have "promise_all rs = Inl e" by blast
    then show "promise_all (Inr v # rs) = Inl e" by simp
  qed
qed

lemma createOrder_try_failure_sources:
  assumes "createOrder_try run order details c1 = (Inl e, c2)"
  shows "db_run run (InsertOrder order) c1 = (Inl e, c2)
       \<or> (\<exists>result. db_run run (InsertOrder order) c1 = (Inr result, c2)
             \<and> generated_id result = None \<and> e = InsertionError)
       \<or> (\<exists>result c' orderid promises.
             db_run run (InsertOrder order) c1 = (Inr result, c')
             \<and> generated_id result = Some orderid
             \<and> insert_details run orderid 1 details c' = (promises, c2)
             \<and> promise_all promises = Inl e)
       \<or> (\<exists>c3. db_run run Commit c3 = (Inl e, c2))"
  using assms unfolding createOrder_try_def
  by (auto split: prod.splits sum.splits option.splits)

lemma updateOrder_try_failure_sources:
  assumes "updateOrder_try run i data rows c1 = (Inl e, c2)"
  shows "db_run run (UpdateOrder i data) c1 = (Inl e, c2)
       \<or> (\<exists>result c' promises.
             db_run run (UpdateOrder i data) c1 = (Inr result, c')
             \<and> update_details run rows c' = (promises, c2)
             \<and> promise_all promises = Inl e)
       \<or> (\<exists>c3. db_run run Commit c3 = (Inl e, c2))"
  using assms unfolding updateOrder_try_def
  by (auto split: prod.splits sum.splits)

text \<open>
  On the engine, with some statements rejected (but neither \<^verbatim>\<open>BEGIN\<close> nor \<^verbatim>\<open>ROLLBACK\<close>),
  \<^verbatim>\<open>createOrder\<close> started outside a transaction ends outside a transaction, and a failed
  call leaves the tables as they were.
\<close>

lemma rejecting_Begin:
  "\<not> bad Begin \<Longrightarrow> snapshot db = None \<Longrightarrow>
   rejecting bad Begin db = (Inr (Some \<lparr>lastID = None\<rparr>), db\<lparr>snapshot := Some (current db)\<rparr>)"
  by (simp add: rejecting_def resolved_def)

lemma rejecting_Rollback:
  "\<not> bad Rollback \<Longrightarrow> snapshot db = Some saved \<Longrightarrow>
   rejecting bad Rollback db = (Inr (Some \<lparr>lastID = None\<rparr>), \<lparr>current = saved, snapshot = None\<rparr>)"
  by (simp add: rejecting_def resolved_def)

lemma rejecting_Commit:
  "rejecting bad Commit db = (r, db') \<Longrightarrow>
   (case r of Inl e \<Rightarrow> db' = db | Inr v \<Rightarrow> snapshot db' = None)"
  by (auto simp: rejecting_def resolved_def split: if_splits option.splits)

lemma rejecting_InsertOrder:
  "snapshot (snd (rejecting bad (InsertOrder order) db)) = snapshot db"
  by (simp add: rejecting_def Let_def)

lemma rejecting_InsertDetail:
  "snapshot (snd (rejecting bad (InsertDetail i oid d) db)) = snapshot db"
  by (simp add: rejecting_def Let_def)

lemma dbstate_db_run: "dbstate (snd (db_run run q c)) = snd (run q (dbstate c))"
  by (simp add: db_run_def split: prod.splits)

lemma fst_db_run: "fst (db_run run q c) = fst (run q (dbstate c))"
  by (simp add: db_run_def split: prod.splits)

lemma insert_details_snapshot:
  "insert_details (rejecting bad) oid n ds c = (rs, c') \<Longrightarrow>
   snapshot (dbstate c') = snapshot (dbstate c)"
proof (induction ds arbitrary: n c rs c')
  case Nil
  then show ?case by simp
next
  case (Cons d ds)
  obtain r c1 where r: "db_run (rejecting bad) (InsertDetail (detail_id oid n) oid d) c = (r, c1)"
    by (cases "db_run (rejecting bad) (InsertDetail (detail_id oid n) oid d) c")
  obtain rs' c2 where rs: "insert_details (rejecting bad) oid (Suc n) ds c1 = (rs', c2)"
    by (cases "insert_details (rejecting bad) oid (Suc n) ds c1")
  from Cons.prems r rs have c': "c' = c2" by simp
  have "dbstate c1 = snd (rejecting bad (InsertDetail (detail_id oid n) oid d) (dbstate c))"
    using dbstate_db_run [of "rejecting bad" "InsertDetail (detail_id oid n) oid d" c] r by simp
  then have "snapshot (dbstate c1) = snapshot (dbstate c)"
    by (simp only: rejecting_InsertDetail)
  with Cons.IH [OF rs] c' show ?case by simp
qed

lemma createOrder_try_snapshot:
  assumes "createOrder_try (rejecting bad) order details c1 = (r, c2)"
  shows "case r of Inl e \<Rightarrow> snapshot (dbstate c2) = snapshot (dbstate c1)
                 | Inr v \<Rightarrow> snapshot (dbstate c2) = None"
proof -
  obtain r1 d1 where h: "db_run (rejecting bad) (InsertOrder order) c1 = (r1, d1)"
    by (cases "db_run (rejecting bad) (InsertOrder order) c1")
  have "dbstate d1 = snd (rejecting bad (InsertOrder order) (dbstate c1))"
    using dbstate_db_run [of "rejecting bad" "InsertOrder order" c1] h by simp
  then have s1: "snapshot (dbstate d1) = snapshot (dbstate c1)"
    by (simp only: rejecting_InsertOrder)
  show ?thesis
  proof (cases r1)
    case (Inl e)
    with assms h have "r = Inl e" "c2 = d1" by (simp_all add: createOrder_try_def)
    with s1 show ?thesis by simp
  next
    case (Inr result)
    show ?thesis
    proof (cases "generated_id result")
      case None
      with assms h Inr have "r = Inl InsertionError" "c2 = d1"
        by (simp_all add: createOrder_try_def)
      with s1 show ?thesis by simp
    next
      case (Some orderid)
      obtain ps d3 where ins: "insert_details (rejecting bad) orderid 1 details d1 = (ps, d3)"
        by (cases "insert_details (rejecting bad) orderid 1 details d1")
      note s3 = insert_details_snapshot [OF ins]
      show ?thesis
      proof (cases "promise_all ps")
        case (Inl e)
        with assms h Inr Some ins have "r = Inl e" "c2 = d3"
          by (simp_all add: createOrder_try_def)
        with s1 s3 show ?thesis by simp
      next
        case vs: (Inr vs)
        obtain r4 d4 where cm: "db_run (rejecting bad) Commit d3 = (r4, d4)"
          by (cases "db_run (rejecting bad) Commit d3")
        have "rejecting bad Commit (dbstate d3) = (r4, dbstate d4)"
          using cm dbstate_db_run [of "rejecting bad" Commit d3]
            fst_db_run [of "rejecting bad" Commit d3]
          by (simp add: prod_eq_iff)
        note c = rejecting_Commit [OF this]
        show ?thesis
        proof (cases r4)
          case e: (Inl e)
          with assms h Inr Some ins vs cm have "r = Inl e" "c2 = d4"
            by (simp_all add: createOrder_try_def)
          with c e s1 s3 show ?thesis by simp
        next
          case ok: (Inr v)
          with assms h Inr Some ins vs cm have "r = Inr orderid" "c2 = d4"
            by (simp_all add: createOrder_try_def)
          with c ok show ?thesis by simp
        qed
      qed
    qed
  qed
qed

lemma createOrder_atomic:
  assumes "snapshot (dbstate c0) = None" and "\<not> bad Begin" and "\<not> bad Rollback"
      and "createOrder (rejecting bad) order details c0 = (r, c')"
  shows "snapshot (dbstate c') = None"
    and "r = Inl e \<Longrightarrow> current (dbstate c') = current (dbstate c0)"
proof -
  have "db_run (rejecting bad) Begin c0 =
          (Inr (Some \<lparr>lastID = None\<rparr>),
           \<lparr>issued = issued c0 @ [Begin],
            dbstate = (dbstate c0)\<lparr>snapshot := Some (current (dbstate c0))\<rparr>\<rparr>)"
    by (simp add: db_run_def rejecting_Begin [of bad "dbstate c0", OF assms(2,1)])
  then obtain c1 where b: "db_run (rejecting bad) Begin c0 = (Inr (Some \<lparr>lastID = None\<rparr>), c1)"
    and s1: "snapshot (dbstate c1) = Some (current (dbstate c0))"
    by simp
  obtain rt c2 where t: "createOrder_try (rejecting bad) order details c1 = (rt, c2)"
    by (cases "createOrder_try (rejecting bad) order details c1")
  note ts = createOrder_try_snapshot [OF t]
  have "snapshot (dbstate c') = None \<and> (r = Inl e \<longrightarrow> current (dbstate c') = current (dbstate c0))"
  proof (cases rt)
    case (Inr v)
    with assms(4) b t have "r = Inr v" "c' = c2" by (simp_all add: createOrder_def)
    with ts Inr show ?thesis by simp
  next
    case (Inl e')
    with ts s1 have s2: "snapshot (dbstate c2) = Some (current (dbstate c0))" by simp
    note rb = rejecting_Rollback [of bad "dbstate c2", OF assms(3) s2]
    have "db_run (rejecting bad) Rollback c2 =
            (Inr (Some \<lparr>lastID = None\<rparr>),
             \<lparr>issued = issued c2 @ [Rollback],
              dbstate = \<lparr>current = current (dbstate c0), snapshot = None\<rparr>\<rparr>)"
      by (simp add: db_run_def rb)
    with assms(4) b t Inl have "c' = \<lparr>issued = issued c2 @ [Rollback],
              dbstate = \<lparr>current = current (dbstate c0), snapshot = None\<rparr>\<rparr>"
      by (simp add: createOrder_def)
    then show ?thesis by simp
  qed
  then show "snapshot (dbstate c') = None"
    and "r = Inl e \<Longrightarrow> current (dbstate c') = current (dbstate c0)"
    by simp_all
qed







text \<open>
  Claim C5. When the insert of the order header resolves to no result, or to a result
  without a generated id (\<^verbatim>\<open>lastID\<close> missing or \<^verbatim>\<open>0\<close>), the \<^verbatim>\<open>try\<close> block raises
  \<^verbatim>\<open>InsertionError\<close> right after that insert: the statements of the whole call are
  \<^verbatim>\<open>BEGIN\<close>, the header insert and \<^verbatim>\<open>ROLLBACK\<close>, so no \<^verbatim>\<open>OrderDetail\<close> insert is
  dispatched. The caller receives \<^verbatim>\<open>InsertionError\<close> unless the \<^verbatim>\<open>ROLLBACK\<close> of the
  \<^verbatim>\<open>catch\<close> is itself rejected.
\<close>

theorem createOrder_missing_id:
  assumes "db_run run Begin c0 = (Inr r0, c1)"
      and "db_run run (InsertOrder order) c1 = (Inr result, c2)"
      and "generated_id result = None"
  shows "createOrder_try run order details c1 = (Inl InsertionError, c2)
       \<and> issued (snd (createOrder run order details c0)) =
           issued c0 @ [Begin, InsertOrder order, Rollback]
       \<and> detail_ids_of (issued (snd (createOrder run order details c0))) = detail_ids_of (issued c0)
       \<and> fst (createOrder run order details c0) =
           (case fst (db_run run Rollback c2) of
              Inl e' \<Rightarrow> Inl e' | Inr _ \<Rightarrow> Inl InsertionError)"
proof -
  have t: "createOrder_try run order details c1 = (Inl InsertionError, c2)"
    using assms(2,3) by (rule createOrder_try_missing_id)
  note c = createOrder_catch [OF assms(1) t]
  have i: "issued (snd (createOrder run order details c0)) =
           issued c0 @ [Begin, InsertOrder order, Rollback]"
    unfolding c catch_issued issued_db_run [OF assms(2)] issued_db_run [OF assms(1)] by simp
  show ?thesis
    using t i by (simp add: c catch_fst detail_ids_of_append)
qed

theorem createOrder_missing_id_witness:
  "db_run scripted Begin \<lparr>issued = [], dbstate = [Inr None, Inr (Some \<lparr>lastID = None\<rparr>), Inr None]\<rparr> =
     (Inr None, \<lparr>issued = [Begin], dbstate = [Inr (Some \<lparr>lastID = None\<rparr>), Inr None]\<rparr>)
   \<and> generated_id (Some \<lparr>lastID = None\<rparr>) = None
   \<and> issued (snd (createOrder scripted example_order
         [\<lparr>productid = 7, unitprice = 10, quantity = 2, discount = 0\<rparr>]
         \<lparr>issued = [], dbstate = [Inr None, Inr (Some \<lparr>lastID = None\<rparr>), Inr None]\<rparr>)) =
       [Begin, InsertOrder example_order, Rollback]
   \<and> fst (createOrder scripted example_order
         [\<lparr>productid = 7, unitprice = 10, quantity = 2, discount = 0\<rparr>]
         \<lparr>issued = [], dbstate = [Inr None, Inr (Some \<lparr>lastID = None\<rparr>), Inr None]\<rparr>) =
       Inl InsertionError"
proof -
  let ?c0 = "\<lparr>issued = [], dbstate = [Inr None, Inr (Some \<lparr>lastID = None\<rparr>), Inr None]\<rparr>"
  let ?c1 = "\<lparr>issued = [Begin], dbstate = [Inr (Some \<lparr>lastID = None\<rparr>), Inr None]\<rparr>"
  let ?c2 = "\<lparr>issued = [Begin, InsertOrder example_order], dbstate = [Inr None]\<rparr>"
  have b: "db_run scripted Begin ?c0 = (Inr None, ?c1)"
    by (simp add: db_run_def)
  have h: "db_run scripted (InsertOrder example_order) ?c1 = (Inr (Some \<lparr>lastID = None\<rparr>), ?c2)"
    by (simp add: db_run_def)
  have g: "generated_id (Some \<lparr>lastID = None\<rparr>) = None"
    by simp
  have r: "fst (db_run scripted Rollback ?c2) = Inr None"
    by (simp add: db_run_def)
  show ?thesis
    using createOrder_missing_id [OF b h g] b r by simp
qed


section \<open>Properties of the queries\<close>

lemma left_join_Nil: "left_join on [] ys = []"
  by (simp add: left_join_def)

lemma left_join_Cons:
  "left_join on (x # xs) ys =
     (if filter (on x) ys = [] then [(x, None)] else map (\<lambda>y. (x, Some y)) (filter (on x) ys))
     @ left_join on xs ys"
  by (simp add: left_join_def Let_def)

lemma filter_left_join:
  "filter (\<lambda>r. P (fst r)) (left_join on xs ys) = left_join on (filter P xs) ys"
proof (induction xs)
  case Nil
  show ?case by (simp add: left_join_Nil)
next
  case (Cons x xs)
  show ?case
  proof (cases "P x")
    case True
    then show ?thesis
      using Cons.IH by (simp add: left_join_Cons filter_map comp_def)
  next
    case False
    then show ?thesis
      using Cons.IH by (simp add: left_join_Cons filter_map comp_def)
  qed
qed

lemma db_get_left_join_Cons:
  "db_get (left_join on (x # xs) ys) = Some (x, db_get (filter (on x) ys))"
  by (cases "filter (on x) ys") (simp_all add: left_join_Cons)

lemma db_get_map: "db_get (map f xs) = map_option f (db_get xs)"
  by (cases xs) simp_all

lemma db_get_filter: "db_get (filter P xs) = find P xs"
  by (induction xs) simp_all



lemma order_joins_filter:
  "filter (\<lambda>((ord, c), e). P ord) (order_joins db) =
     left_join (\<lambda>(ord, c) e. employeeid ord = e_id e)
       (left_join (\<lambda>ord c. customerid ord = c_id c) (filter P (customerOrder db)) (customer db))
       (employee db)"
proof -
  have "filter (\<lambda>((ord, c), e). P ord) (order_joins db) =
        filter (\<lambda>r. (\<lambda>q. P (fst q)) (fst r)) (order_joins db)"
    by (simp add: split_def)
  also have "\<dots> = left_join (\<lambda>(ord, c) e. employeeid ord = e_id e)
       (filter (\<lambda>q. P (fst q)) (left_join (\<lambda>ord c. customerid ord = c_id c)
          (customerOrder db) (customer db)))
       (employee db)"
    unfolding order_joins_def by (rule filter_left_join)
  also have "filter (\<lambda>q. P (fst q)) (left_join (\<lambda>ord c. customerid ord = c_id c)
          (customerOrder db) (customer db)) =
       left_join (\<lambda>ord c. customerid ord = c_id c) (filter P (customerOrder db)) (customer db)"
    by (rule filter_left_join)
  finally show ?thesis .
qed

lemma getOrder_first:
  "getOrder i db =
     (case find (\<lambda>r. o_id r = i) (customerOrder db) of
        None \<Rightarrow> None
      | Some ord \<Rightarrow>
          Some \<lparr>v_id = i,
                v_customerid = map_option c_id (find (\<lambda>c. customerid ord = c_id c) (customer db)),
                v_employeeid = map_option e_id (find (\<lambda>e. employeeid ord = e_id e) (employee db)),
                v_customername =
                  map_option contactname (find (\<lambda>c. customerid ord = c_id c) (customer db)),
                v_employeename =
                  employeename_of (find (\<lambda>e. employeeid ord = e_id e) (employee db)),
                subtotal = subtotal_of i db\<rparr>)"
proof (cases "filter (\<lambda>r. o_id r = i) (customerOrder db)")
  case Nil
  then have "find (\<lambda>r. o_id r = i) (customerOrder db) = None"
    by (simp add: db_get_filter [symmetric])
  with Nil show ?thesis
    by (simp add: getOrder_def order_joins_filter left_join_Nil)
next
  case (Cons ord rest)
  then have f: "find (\<lambda>r. o_id r = i) (customerOrder db) = Some ord"
    by (simp add: db_get_filter [symmetric])
  then have "o_id ord = i" by (auto simp: find_Some_iff)
  have "db_get (left_join (\<lambda>(ord, c) e. employeeid ord = e_id e)
       (left_join (\<lambda>ord c. customerid ord = c_id c) (ord # rest) (customer db))
       (employee db)) =
     Some ((ord, find (\<lambda>c. customerid ord = c_id c) (customer db)),
           find (\<lambda>e. employeeid ord = e_id e) (employee db))"
  proof (cases "left_join (\<lambda>ord c. customerid ord = c_id c) (ord # rest) (customer db)")
    case Nil
    then show ?thesis
      using db_get_left_join_Cons [of "\<lambda>ord c. customerid ord = c_id c" ord rest "customer db"]
      by simp
  next
    case (Cons q qs)
    then have q: "q = (ord, find (\<lambda>c. customerid ord = c_id c) (customer db))"
      using db_get_left_join_Cons [of "\<lambda>ord c. customerid ord = c_id c" ord rest "customer db"]
      by (simp add: db_get_filter)
    show ?thesis
      unfolding Cons db_get_left_join_Cons q by (simp add: db_get_filter)
  qed
  with Cons f \<open>o_id ord = i\<close> show ?thesis
    by (simp add: getOrder_def order_joins_filter db_get_map)
qed

lemma find_key_image:
  "map_option f (find (\<lambda>x. k = f x) xs) = (if k \<in> f ` set xs then Some k else None)"
  by (induction xs) auto



lemma deleteOrder_engine:
  "deleteOrder engine i c =
     (Inr (Some \<lparr>lastID = None\<rparr>),
      \<lparr>issued = issued c @ [DeleteOrder i],
       dbstate = (dbstate c)\<lparr>current := (current (dbstate c))
         \<lparr>customerOrder := filter (\<lambda>r. o_id r \<noteq> i) (customerOrder (current (dbstate c)))\<rparr>\<rparr>\<rparr>)"
  by (simp add: deleteOrder_def db_run_def resolved_def Let_def)

lemma getOrderDetails_frame:
  "orderDetail db' = orderDetail db \<Longrightarrow> product db' = product db \<Longrightarrow>
   getOrderDetails i db' = getOrderDetails i db"
  by (simp add: getOrderDetails_def)

lemma example_row_sel:
  "o_id (example_row i cust emp shipped) = i"
  "customerid (example_row i cust emp shipped) = cust"
  "employeeid (example_row i cust emp shipped) = emp"
  "shippeddate (example_row i cust emp shipped) = shipped"
  "shipcity (example_row i cust emp shipped) = ''Graz''"
  "shipcountry (example_row i cust emp shipped) = ''Austria''"
  by (simp_all add: example_row_def example_order_def order_data.defs order_row.defs)



text \<open>
  Claim C10. The \<^verbatim>\<open>customerid\<close> and \<^verbatim>\<open>employeeid\<close> of the row returned by \<^verbatim>\<open>getOrder\<close>
  are \<^verbatim>\<open>c.id\<close> and \<^verbatim>\<open>e.id\<close> of the left-joined rows: for the stored order \<open>ord\<close> with
  the id asked for, each is the stored value when a \<^verbatim>\<open>Customer\<close> (an \<^verbatim>\<open>Employee\<close>) row with
  that id exists, and \<^verbatim>\<open>NULL\<close> when none does.
\<close>

theorem getOrder_ids_from_joined_rows:
  assumes "find (\<lambda>r. o_id r = i) (customerOrder db) = Some ord"
  shows "\<exists>r. getOrder i db = Some r
       \<and> v_customerid r =
           (if customerid ord \<in> c_id ` set (customer db) then Some (customerid ord) else None)
       \<and> v_employeeid r =
           (if employeeid ord \<in> e_id ` set (employee db) then Some (employeeid ord) else None)"
  unfolding getOrder_first assms by (simp add: find_key_image)

theorem getOrder_ids_from_joined_rows_witness:
  "find (\<lambda>r. o_id r = 12) (customerOrder example_tables) =
     Some (example_row 12 ''GHOST'' 9 (Some ''2020-01-02''))
   \<and> map_option v_customerid (getOrder 12 example_tables) = Some None
   \<and> map_option v_employeeid (getOrder 12 example_tables) = Some None
   \<and> find (\<lambda>r. o_id r = 10) (customerOrder example_tables) =
     Some (example_row 10 ''ERNSH'' 2 (Some ''2020-01-05''))
   \<and> map_option v_customerid (getOrder 10 example_tables) = Some (Some ''ERNSH'')
   \<and> map_option v_employeeid (getOrder 10 example_tables) = Some (Some 2)"
proof -
  have f: "find (\<lambda>r. o_id r = 12) (customerOrder example_tables) =
     Some (example_row 12 ''GHOST'' 9 (Some ''2020-01-02''))"
    by (simp add: example_tables_def example_row_sel)
  have f10: "find (\<lambda>r. o_id r = 10) (customerOrder example_tables) =
     Some (example_row 10 ''ERNSH'' 2 (Some ''2020-01-05''))"
    by (simp add: example_tables_def example_row_sel)
  have s: "c_id ` set (customer example_tables) = {''ALFKI'', ''ERNSH''}"
      "e_id ` set (employee example_tables) = {1, 2, 3}"
    by (simp_all add: example_tables_def)
  show ?thesis
    using getOrder_ids_from_joined_rows [OF f] getOrder_ids_from_joined_rows [OF f10] f f10
    by (auto simp: s example_row_sel)
qed



text \<open>
  Claim C7. Executed by the engine, \<^verbatim>\<open>deleteOrder\<close> removes the \<^verbatim>\<open>CustomerOrder\<close> rows with
  the given id and no others, and leaves \<^verbatim>\<open>OrderDetail\<close> as it was: afterwards
  \<^verbatim>\<open>getOrder\<close> finds nothing for that id, and \<^verbatim>\<open>getOrderDetails\<close> returns what it
  returned before.
\<close>

theorem deleteOrder_frame:
  "customerOrder (current (dbstate (snd (deleteOrder engine i c)))) =
     filter (\<lambda>r. o_id r \<noteq> i) (customerOrder (current (dbstate c)))
   \<and> orderDetail (current (dbstate (snd (deleteOrder engine i c)))) =
       orderDetail (current (dbstate c))
   \<and> getOrder i (current (dbstate (snd (deleteOrder engine i c)))) = None
   \<and> getOrderDetails i (current (dbstate (snd (deleteOrder engine i c)))) =
       getOrderDetails i (current (dbstate c))"
proof -
  let ?after = "current (dbstate (snd (deleteOrder engine i c)))"
  have co: "customerOrder ?after = filter (\<lambda>r. o_id r \<noteq> i) (customerOrder (current (dbstate c)))"
    by (simp add: deleteOrder_engine)
  have od: "orderDetail ?after = orderDetail (current (dbstate c))"
    by (simp add: deleteOrder_engine)
  have pr: "product ?after = product (current (dbstate c))"
    by (simp add: deleteOrder_engine)
  have "find (\<lambda>r. o_id r = i) (customerOrder ?after) = None"
    unfolding co by (simp add: find_None_iff)
  then have go: "getOrder i ?after = None"
    by (simp add: getOrder_first)
  show ?thesis
    using co od go getOrderDetails_frame [OF od pr] by simp
qed
theorem deleteOrder_frame_witness:
  "map o_id (customerOrder (current (dbstate (snd (deleteOrder engine 10
       \<lparr>issued = [], dbstate = \<lparr>current = example_tables, snapshot = None\<rparr>\<rparr>))))) = [11, 12, 13]
   \<and> getOrder 10 (current (dbstate (snd (deleteOrder engine 10
       \<lparr>issued = [], dbstate = \<lparr>current = example_tables, snapshot = None\<rparr>\<rparr>)))) = None
   \<and> map dv_id (getOrderDetails 10 (current (dbstate (snd (deleteOrder engine 10
       \<lparr>issued = [], dbstate = \<lparr>current = example_tables, snapshot = None\<rparr>\<rparr>))))) =
      [''10/1'', ''10/2'']"
proof -
  let ?c = "\<lparr>issued = [], dbstate = \<lparr>current = example_tables, snapshot = None\<rparr>\<rparr>"
  have a: "map o_id (filter (\<lambda>r. o_id r \<noteq> 10) (customerOrder example_tables)) = [11, 12, 13]"
    by (simp add: example_tables_def example_row_sel)
  have b: "map dv_id (getOrderDetails 10 example_tables) = [''10/1'', ''10/2'']"
    by (simp add: getOrderDetails_def left_join_def example_tables_def)
  show ?thesis
    using deleteOrder_frame [of 10 ?c] a b by simp
qed

lemma group_by_blocks:
  assumes "distinct (map kof es)"
      and "\<forall>e \<in> set es. \<forall>x \<in> set (blk e). key x = kof e"
  shows "group_by key (concat (map blk es)) = filter (\<lambda>b. b \<noteq> []) (map blk es)"
  using assms
proof (induction es)
  case Nil
  show ?case by simp
next
  case (Cons e es)
  from Cons.prems have IH: "group_by key (concat (map blk es)) = filter (\<lambda>b. b \<noteq> []) (map blk es)"
    by (intro Cons.IH) simp_all
  show ?case
  proof (cases "blk e")
    case Nil
    with IH show ?thesis by simp
  next
    case (Cons x b)
    from Cons.prems(2) Cons have kx: "key x = kof e" and kb: "\<forall>y \<in> set b. key y = kof e"
      by simp_all
    have others: "\<forall>y \<in> set (concat (map blk es)). key y \<noteq> kof e"
    proof
      fix y assume "y \<in> set (concat (map blk es))"
      then obtain e' where e': "e' \<in> set es" "y \<in> set (blk e')" by auto
      with Cons.prems(2) have "key y = kof e'" by simp
      moreover have "kof e \<notin> set (map kof es)"
        using Cons.prems(1) by simp
      then have "kof e' \<noteq> kof e"
        using e'(1) by (metis image_eqI set_map)
      ultimately show "key y \<noteq> kof e" by simp
    qed
    have same: "filter (\<lambda>y. key y = key x) (b @ concat (map blk es)) = b"
      using kb others by (simp add: kx filter_empty_conv del: set_concat)
    have rest: "filter (\<lambda>y. key y \<noteq> key x) (b @ concat (map blk es)) = concat (map blk es)"
      using kb others by (simp add: kx filter_empty_conv filter_id_conv del: set_concat)
    have "group_by key (concat (map blk (e # es))) = group_by key (x # (b @ concat (map blk es)))"
      using Cons by simp
    also have "\<dots> = (x # b) # group_by key (concat (map blk es))"
      by (simp only: group_by.simps same rest)
    finally show ?thesis
      using IH Cons by simp
  qed
qed

lemma inner_join_blocks:
  "inner_join on xs ys = concat (map (\<lambda>x. map (Pair x) (filter (on x) ys)) xs)"
  by (simp add: inner_join_def)

lemma concat_nonempty_blocks:
  assumes "sel [] = []"
  shows "concat (map sel (filter (\<lambda>b. b \<noteq> []) (map blk es))) = concat (map (\<lambda>e. sel (blk e)) es)"
  using assms by (induction es) auto

lemma concat_map_if:
  "concat (map (\<lambda>e. if P e then [f e] else []) es) = map f (filter P es)"
  by (induction es) auto

lemma set_insert_by: "set (insert_by le x xs) = insert x (set xs)"
  by (induction xs) auto

lemma set_sort_by: "set (sort_by le xs) = set xs"
  by (induction xs) (simp_all add: sort_by_def set_insert_by)



lemma length_insert_by: "length (insert_by le x xs) = Suc (length xs)"
  by (induction xs) auto

lemma fst_set_left_join: "fst ` set (left_join on xs ys) = set xs"
proof (induction xs)
  case Nil
  show ?case by (simp add: left_join_Nil)
next
  case (Cons x xs)
  have "fst ` set (if filter (on x) ys = [] then [(x, None)]
                   else map (\<lambda>y. (x, Some y)) (filter (on x) ys)) = {x}"
    by (cases "filter (on x) ys") (auto simp: image_iff)
  with Cons show ?case
    by (simp add: left_join_Cons image_Un del: set_filter)
qed

lemma where_filter_empty: "where_filter [] = Inr (\<lambda>ord. True)"
  by (simp add: where_filter_def)

lemma ordered_orders_ids:
  assumes "ordered_orders whereClause s d db = Inr rows"
  shows "\<exists>keep le. where_filter whereClause = Inr keep
           \<and> map l_id rows = map (\<lambda>r. o_id (fst (fst r)))
               (sort_by le (filter (\<lambda>r. keep (fst (fst r))) (order_joins db)))"
  using assms unfolding ordered_orders_def
  by (auto split: sum.splits simp: listing_row_def split_def comp_def)

lemma ordered_orders_unfiltered:
  assumes "ordered_orders [] s d db = Inr rows"
  shows "set (map l_id rows) = set (map o_id (customerOrder db))"
proof -
  from ordered_orders_ids [OF assms] obtain le
    where m: "map l_id rows = map (\<lambda>r. o_id (fst (fst r))) (sort_by le (order_joins db))"
    by (auto simp: where_filter_empty)
  have "fst ` fst ` set (order_joins db) = set (customerOrder db)"
    unfolding order_joins_def fst_set_left_join ..
  then have "o_id ` fst ` fst ` set (order_joins db) = o_id ` set (customerOrder db)"
    by simp
  then have "(\<lambda>r. o_id (fst (fst r))) ` set (order_joins db) = o_id ` set (customerOrder db)"
    by (simp add: image_image)
  then show ?thesis
    unfolding m by (simp add: set_sort_by)
qed








lemma where_clause_falsy: "\<not> truthy cid \<Longrightarrow> where_clause cid = []"
  by (simp add: where_clause_def)

lemma example_order_joins:
  "order_joins example_tables =
     [((example_row 10 ''ERNSH'' 2 (Some ''2020-01-05''), Some (customer example_tables ! 1)),
         Some (employee example_tables ! 1)),
      ((example_row 11 ''ALFKI'' 1 None, Some (customer example_tables ! 0)),
         Some (employee example_tables ! 0)),
      ((example_row 12 ''GHOST'' 9 (Some ''2020-01-02''), None), None),
      ((example_row 13 ''ALFKI'' 2 (Some ''2020-01-03''), Some (customer example_tables ! 0)),
         Some (employee example_tables ! 1))]"
  by (simp add: order_joins_def left_join_def example_tables_def example_row_sel)


lemma example_ordered_by_shippeddate:
  "ordered_orders [] ''shippeddate'' ''asc'' example_tables =
     Inr [example_listing ! 1, example_listing ! 2, example_listing ! 3, example_listing ! 0]"
  unfolding ordered_orders_def example_order_joins
  by (simp add: where_filter_empty order_by_def order_column_def sort_by_def
      listing_row_def employeename_of_def example_row_sel example_listing_def
      example_listing_row_def example_tables_def)

lemma where_filter_customer:
  assumes "s \<noteq> []" and "quote \<notin> set s"
  shows "where_clause (JStr s) = ''WHERE o.customerId = '' @ [quote] @ s @ [quote]"
    and "where_filter (where_clause (JStr s)) = Inr (\<lambda>ord. customerid ord = s)"
  using assms by (simp_all add: where_clause_def where_filter_def Let_def)

text \<open>The result of \<^verbatim>\<open>ORDER BY\<close> is sorted by the requested column and direction.\<close>

lemma sqlval_le_total: "sqlval_le a b \<or> sqlval_le b a"
  by (cases a; cases b) auto

lemma sqlval_le_trans: "sqlval_le a b \<Longrightarrow> sqlval_le b c \<Longrightarrow> sqlval_le a c"
  by (cases a; cases b; cases c) auto

lemma sorted_insert_by:
  assumes tot: "\<And>a b. le a b \<or> le b a" and tr: "\<And>a b c. le a b \<Longrightarrow> le b c \<Longrightarrow> le a c"
  shows "sorted_wrt le xs \<Longrightarrow> sorted_wrt le (insert_by le x xs)"
proof (induction xs)
  case Nil
  show ?case by simp
next
  case (Cons y ys)
  from Cons.prems have ys: "\<forall>z \<in> set ys. le y z" and s: "sorted_wrt le ys" by simp_all
  show ?case
  proof (cases "le x y")
    case True
    have "\<forall>z \<in> set ys. le x z"
      using ys tr [OF True] by blast
    with True ys s show ?thesis by simp
  next
    case False
    with tot [of x y] have "le y x" by blast
    with False ys Cons.IH [OF s] show ?thesis by (simp add: set_insert_by)
  qed
qed

lemma sorted_sort_by:
  assumes "\<And>a b. le a b \<or> le b a" and "\<And>a b c. le a b \<Longrightarrow> le b c \<Longrightarrow> le a c"
  shows "sorted_wrt le (sort_by le xs)"
proof (induction xs)
  case Nil
  show ?case by (simp add: sort_by_def)
next
  case (Cons x xs)
  then show ?case
    using sorted_insert_by [of le "sort_by le xs" x] assms
    by (simp add: sort_by_def)
qed

lemma order_by_cases:
  assumes "order_by s d = Inr le"
  obtains col where "le = (\<lambda>a b. sqlval_le (col a) (col b))"
        | col where "le = (\<lambda>a b. sqlval_le (col b) (col a))"
  using assms unfolding order_by_def
  by (cases "order_column s") (simp_all split: if_splits, blast+)

lemma order_by_sorted:
  assumes "order_by s d = Inr le"
  shows "sorted_wrt (\<lambda>a b. le (fst (fst a)) (fst (fst b)))
           (sort_by (\<lambda>a b. le (fst (fst a)) (fst (fst b))) rows)"
proof -
  have "(\<forall>a b. le a b \<or> le b a) \<and> (\<forall>a b c. le a b \<longrightarrow> le b c \<longrightarrow> le a c)"
  proof (rule order_by_cases [OF assms])
    fix col assume "le = (\<lambda>a b. sqlval_le (col a) (col b))"
    then show ?thesis
      using sqlval_le_total sqlval_le_trans by blast
  next
    fix col assume "le = (\<lambda>a b. sqlval_le (col b) (col a))"
    then show ?thesis
      using sqlval_le_total sqlval_le_trans by blast
  qed
  then have tot: "\<And>a b. le a b \<or> le b a" and tr: "\<And>a b c. le a b \<Longrightarrow> le b c \<Longrightarrow> le a c"
    by blast+
  show ?thesis
    apply (rule sorted_sort_by)
     apply (rule tot)
    apply (erule tr, assumption)
    done
qed

text \<open>
  Claim C8. With the ids of \<^verbatim>\<open>Employee\<close> unique, \<^verbatim>\<open>getAllEmployees\<close> returns, in table
  order, exactly the employees to whom some \<^verbatim>\<open>CustomerOrder\<close> row refers, each once and
  with \<^verbatim>\<open>ordercount\<close> equal to the number of \<^verbatim>\<open>CustomerOrder\<close> rows that refer to it.
  An employee without orders is filtered out.
\<close>

theorem getAllEmployees_rows:
  assumes "distinct (map e_id (employee db))"
  shows "getAllEmployees db =
     map (\<lambda>e. employee_row.extend e (employee_listing.fields
                 (length (filter (\<lambda>ord. employeeid ord = e_id e) (customerOrder db)))))
       (filter (\<lambda>e. \<exists>ord \<in> set (customerOrder db). employeeid ord = e_id e) (employee db))"
proof -
  let ?blk = "\<lambda>e. map (Pair e) (filter (\<lambda>ord. e_id e = employeeid ord) (customerOrder db))"
  let ?sel = "\<lambda>g. case g of [] \<Rightarrow> []
                | (e, ord) # _ \<Rightarrow> [employee_row.extend e (employee_listing.fields (length g))]"
  have keys: "\<forall>e \<in> set (employee db). \<forall>x \<in> set (?blk e). (\<lambda>(e, ord). employeeid ord) x = e_id e"
    by auto
  have g: "group_by (\<lambda>(e, ord). employeeid ord)
             (inner_join (\<lambda>e ord. e_id e = employeeid ord) (employee db) (customerOrder db)) =
           filter (\<lambda>b. b \<noteq> []) (map ?blk (employee db))"
    unfolding inner_join_blocks by (rule group_by_blocks [OF assms keys])
  have sel: "?sel (?blk e) =
       (if \<exists>ord \<in> set (customerOrder db). employeeid ord = e_id e
        then [employee_row.extend e (employee_listing.fields
                (length (filter (\<lambda>ord. employeeid ord = e_id e) (customerOrder db))))]
        else [])" for e
  proof (cases "filter (\<lambda>ord. e_id e = employeeid ord) (customerOrder db)")
    case Nil
    then have "\<not> (\<exists>ord \<in> set (customerOrder db). employeeid ord = e_id e)"
      by (auto simp: filter_empty_conv)
    with Nil show ?thesis by simp
  next
    case (Cons a as)
    then have "a \<in> set (filter (\<lambda>ord. e_id e = employeeid ord) (customerOrder db))" by simp
    then have ex: "\<exists>ord \<in> set (customerOrder db). employeeid ord = e_id e" by auto
    have "filter (\<lambda>ord. employeeid ord = e_id e) (customerOrder db) =
          filter (\<lambda>ord. e_id e = employeeid ord) (customerOrder db)"
      by (rule filter_cong) auto
    with Cons ex show ?thesis by simp
  qed
  have "getAllEmployees db = concat (map ?sel (filter (\<lambda>b. b \<noteq> []) (map ?blk (employee db))))"
    unfolding getAllEmployees_def g ..
  also have "\<dots> = concat (map (\<lambda>e. ?sel (?blk e)) (employee db))"
    by (rule concat_nonempty_blocks) simp
  finally show ?thesis
    unfolding sel by (simp only: concat_map_if)
qed

theorem getAllEmployees_rows_witness:
  "distinct (map e_id (employee example_tables))
   \<and> map e_id (employee example_tables) = [1, 2, 3]
   \<and> map employeeid (customerOrder example_tables) = [2, 1, 9, 2]
   \<and> map (\<lambda>r. (e_id r, firstname r, ordercount r)) (getAllEmployees example_tables) =
       [(1, ''Nancy'', 1), (2, ''Andrew'', 2)]"
proof -
  have d: "distinct (map e_id (employee example_tables))"
    by (simp add: example_tables_def)
  show ?thesis
    using d getAllEmployees_rows [OF d]
    by (simp add: example_tables_def example_row_sel employee_row.defs employee_listing.defs)
qed



lemma falsy_values:
  "\<not> truthy v \<longleftrightarrow> v = Undefined \<or> v = JNull \<or> v = JNum 0 \<or> v = JStr []"
  by (cases v) auto

text \<open>
  Claim C9. For a falsy \<^verbatim>\<open>customerId\<close> (\<^verbatim>\<open>undefined\<close>, \<^verbatim>\<open>null\<close>, \<^verbatim>\<open>0\<close>, the empty string:
  \<open>falsy_values\<close>)
  the text of the \<^verbatim>\<open>WHERE\<close> clause is empty and the engine filters nothing:
  \<^verbatim>\<open>getAllOrders\<close> and \<^verbatim>\<open>getCustomerOrders\<close> return what they return without a customer,
  and before \<^verbatim>\<open>LIMIT\<close> and \<^verbatim>\<open>OFFSET\<close> the listing holds the orders of all customers.
\<close>

theorem falsy_customer_id_unfiltered:
  assumes "\<not> truthy cid"
  shows "where_clause cid = []
       \<and> where_filter (where_clause cid) = Inr (\<lambda>ord. True)
       \<and> getAllOrders opts cid db = getAllOrders opts Undefined db
       \<and> getCustomerOrders cid opts db =
           getAllOrders (as_partial (spread DEFAULT_CUSTOMER_ORDER_COLLECTION_OPTIONS opts))
             Undefined db
       \<and> (\<forall>rows. ordered_orders (where_clause cid) s d db = Inr rows
            \<longrightarrow> set (map l_id rows) = set (map o_id (customerOrder db)))"
proof -
  note w = where_clause_falsy [OF assms]
  have u: "where_clause Undefined = []" by (simp add: where_clause_def)
  have g: "getAllOrders o' cid db = getAllOrders o' Undefined db" for o'
    by (simp add: getAllOrders_def w u)
  show ?thesis
    using ordered_orders_unfiltered
    by (simp add: w where_filter_empty g getCustomerOrders_def Let_def)
qed

theorem falsy_customer_id_unfiltered_witness:
  "\<not> truthy (JStr [])
   \<and> getCustomerOrders (JStr []) no_options example_tables =
       Inr [example_listing ! 1, example_listing ! 2, example_listing ! 3, example_listing ! 0]
   \<and> map l_customerid
        [example_listing ! 1, example_listing ! 2, example_listing ! 3, example_listing ! 0] =
       [''ALFKI'', ''GHOST'', ''ALFKI'', ''ERNSH'']"
proof -
  have f: "\<not> truthy (JStr [])" by simp
  have g: "getAllOrders (as_partial (spread DEFAULT_CUSTOMER_ORDER_COLLECTION_OPTIONS no_options))
             Undefined example_tables =
           Inr [example_listing ! 1, example_listing ! 2, example_listing ! 3, example_listing ! 0]"
    by (simp add: getAllOrders_def select_orders_def spread_def as_partial_def no_options_def
        DEFAULT_CUSTOMER_ORDER_COLLECTION_OPTIONS_def DEFAULT_ORDER_COLLECTION_OPTIONS_def
        where_clause_def example_ordered_by_shippeddate limit_offset_def)
  have c: "map l_customerid
        [example_listing ! 1, example_listing ! 2, example_listing ! 3, example_listing ! 0] =
       [''ALFKI'', ''GHOST'', ''ALFKI'', ''ERNSH'']"
    by (simp add: example_listing_def example_listing_row_def)
  show ?thesis
    using falsy_customer_id_unfiltered [OF f, of no_options example_tables] f g c by simp
qed

end
